theory Spec2Isabelle
  imports Complex_Main
begin

section \<open>Numerical data model\<close>

text \<open>
  The notebooks compute with Python floats and numpy arrays of floats. A float is
  written as a \<^typ>\<open>real\<close>, the float operations as \<open>+\<close> and \<open>*\<close>, and
  \<open>math.cos\<close>, \<open>math.sin\<close>, \<open>math.pi\<close> as \<^const>\<open>cos\<close>, \<^const>\<open>sin\<close>,
  \<^const>\<open>pi\<close>; infinities and NaN are outside the model. The general results
  below use no law of this arithmetic that rounding breaks: they are about which
  value is stored where, about the errors raised, and about adding zero and
  multiplying by zero, which are exact in double precision too. The identities
  between products and inverses of rotation matrices, which hold for the reals
  but only up to rounding for the arrays numpy computes, are left out.
  A two-dimensional numpy array is the list of its rows; a column vector of shape
  \<open>(n, 1)\<close> is a list of \<open>n\<close> one-element rows.
\<close>

type_synonym matrix = "real list list"

datatype error = ValueError | IndexError

definition nrows :: "matrix \<Rightarrow> nat" where
  "nrows m = length m"

definition ncols :: "matrix \<Rightarrow> nat" where
  "ncols m = (case m of [] \<Rightarrow> 0 | r # _ \<Rightarrow> length r)"

text \<open>\<open>np.zeros((r, c))\<close>.\<close>

definition zeros :: "nat \<Rightarrow> nat \<Rightarrow> matrix" where
  "zeros r c = replicate r (replicate c 0)"

subsection \<open>Assembling arrays\<close>

text \<open>
  \<open>np.block([[a, b], [c, d]])\<close> on two-dimensional blocks: each inner list is
  concatenated along the last axis (the blocks must have the same number of
  rows), the results along the first axis (they must have the same number of
  columns); numpy raises \<open>ValueError\<close> on a mismatch. A scalar block is promoted
  to a \<open>1 \<times> 1\<close> array.
\<close>

definition hstack :: "matrix \<Rightarrow> matrix \<Rightarrow> error + matrix" where
  "hstack a b = (if nrows a = nrows b then Inr (map2 (@) a b) else Inl ValueError)"

definition vstack :: "matrix \<Rightarrow> matrix \<Rightarrow> error + matrix" where
  "vstack a b = (if ncols a = ncols b then Inr (a @ b) else Inl ValueError)"

definition block :: "matrix \<Rightarrow> matrix \<Rightarrow> matrix \<Rightarrow> matrix \<Rightarrow> error + matrix" where
  "block a b c d =
     (case hstack a b of
        Inl e \<Rightarrow> Inl e
      | Inr upper \<Rightarrow>
          (case hstack c d of
             Inl e \<Rightarrow> Inl e
           | Inr lower \<Rightarrow> vstack upper lower))"

text \<open>The shape of an array: \<open>r\<close> rows of \<open>c\<close> entries each.\<close>

definition is_shape :: "nat \<Rightarrow> nat \<Rightarrow> matrix \<Rightarrow> bool" where
  "is_shape r c m = (length m = r \<and> list_all (\<lambda>row. length row = c) m)"

section \<open>Frame transforms (CoordinateTransformExercise)\<close>

text \<open>\<open>rotation_2d\<close> as the notebook has it now: the matrix is written out directly.\<close>

definition rotation_2d :: "real \<Rightarrow> matrix" where
  "rotation_2d theta = [[cos theta, - sin theta], [sin theta, cos theta]]"

text \<open>
  \<open>rigid_transformation2d(theta, xi)\<close> is
  \<open>np.block([[rotation_2d(theta), xi], [np.zeros((1,2)), 1.0]])\<close>.
\<close>

definition rigid_transformation2d :: "real \<Rightarrow> matrix \<Rightarrow> error + matrix" where
  "rigid_transformation2d theta xi = block (rotation_2d theta) xi (zeros 1 2) [[1]]"

section \<open>Unicycle kinematics (VehicleKinematicsExamples)\<close>

text \<open>
  A state and a control output are Python lists of floats. A control function
  maps the time and the state to a list; \<open>unicycle_motion\<close> unpacks that list
  into exactly two names, which raises \<open>ValueError\<close> for any other length, and
  then reads \<open>x[2]\<close>, which raises \<open>IndexError\<close> on a state shorter than three.
  The keyword argument \<open>u_fn\<close> is optional: \<open>None\<close> stands for a call that omits
  it, which binds the default \<open>lambda t, x : [0,0]\<close>.
\<close>

type_synonym control_fn = "real \<Rightarrow> real list \<Rightarrow> real list"

definition default_u_fn :: control_fn where
  "default_u_fn t x = [0, 0]"

definition unicycle_motion :: "real \<Rightarrow> real list \<Rightarrow> control_fn option \<Rightarrow> error + real list" where
  "unicycle_motion t x u_fn_arg =
     (let u_fn = (case u_fn_arg of None \<Rightarrow> default_u_fn | Some g \<Rightarrow> g) in
      case u_fn t x of
        [v, omega] \<Rightarrow>
          (if 2 < length x then
             (let theta = x ! 2;
                  x_dot = v * cos theta;
                  y_dot = v * sin theta;
                  theta_dot = omega
              in Inr [x_dot, y_dot, theta_dot])
           else Inl IndexError)
      | _ \<Rightarrow> Inl ValueError)"

text \<open>The two open-loop controllers of the notebook.\<close>

definition u_const_fn :: control_fn where
  "u_const_fn t x = [0.5, pi / 6.0]"

definition open_loop :: "real \<Rightarrow> real list \<Rightarrow> real \<Rightarrow> real option \<Rightarrow> real list" where
  "open_loop t x t_f alpha_arg =
     (let alpha = (case alpha_arg of None \<Rightarrow> 0.1 | Some a \<Rightarrow> a);
          u_1 = alpha * (t_f - t);
          u_2 = sin (pi * t)
      in [u_1, u_2])"

subsection \<open>The initial-value solver\<close>

text \<open>
  Modelled from the spec: the integrator (\<open>integrate_trajectory\<close>; in the notebook
  \<open>scipy.integrate.solve_ivp(fun, t_span, y0, method='RK23')\<close>) is library code
  and not among the sources. It is the explicit Runge-Kutta scheme of order 2(3)
  the spec names: the derivative at the current sample is the first stage, each
  further stage evaluates \<open>fun\<close> at the state advanced along the earlier stages,
  and the new state adds the weighted stages to the old one. The coefficients are
  those of the Bogacki-Shampine pair. The step-size control is the library's own
  and is not modelled: the magnitudes of the accepted steps are the parameter
  \<open>hs\<close>, and every result below holds for each such list. A step is clipped at
  the end of the time span; the solver stops there, or earlier when the list ends
  (the solver gave up). An exception of \<open>fun\<close> leaves the solver as it is.
\<close>

type_synonym deriv_fn = "real \<Rightarrow> real list \<Rightarrow> error + real list"

definition vadd :: "real list \<Rightarrow> real list \<Rightarrow> real list" where
  "vadd u w = map2 (+) u w"

definition vscale :: "real \<Rightarrow> real list \<Rightarrow> real list" where
  "vscale k u = map ((*) k) u"

text \<open>\<open>np.dot(K[:s].T, a[:s])\<close>: the combination of the stage vectors with weights \<open>a\<close>.\<close>

definition lincomb :: "nat \<Rightarrow> real list \<Rightarrow> real list list \<Rightarrow> real list" where
  "lincomb n a K = foldr (\<lambda>(c, k) acc. vadd (vscale c k) acc) (zip a K) (replicate n 0)"

definition rk23_A :: "real list list" where
  "rk23_A = [[1/2], [0, 3/4]]"

definition rk23_C :: "real list" where
  "rk23_C = [1/2, 3/4]"

definition rk23_B :: "real list" where
  "rk23_B = [2/9, 1/3, 4/9]"

fun rk_stages ::
  "deriv_fn \<Rightarrow> real \<Rightarrow> real list \<Rightarrow> real \<Rightarrow> (real list \<times> real) list \<Rightarrow> real list list
     \<Rightarrow> error + real list list" where
  "rk_stages f t y h [] K = Inr K"
| "rk_stages f t y h ((a, c) # rest) K =
     (let dy = vscale h (lincomb (length y) a K) in
      case f (t + c * h) (vadd y dy) of
        Inl e \<Rightarrow> Inl e
      | Inr k \<Rightarrow> rk_stages f t y h rest (K @ [k]))"

definition rk_step ::
  "deriv_fn \<Rightarrow> real \<Rightarrow> real list \<Rightarrow> real list \<Rightarrow> real \<Rightarrow> error + real list \<times> real list" where
  "rk_step f t y f_cur h =
     (case rk_stages f t y h (zip rk23_A rk23_C) [f_cur] of
        Inl e \<Rightarrow> Inl e
      | Inr K \<Rightarrow>
          (let y_new = vadd y (vscale h (lincomb (length y) rk23_B K)) in
           case f (t + h) y_new of
             Inl e \<Rightarrow> Inl e
           | Inr f_new \<Rightarrow> Inr (y_new, f_new)))"

fun rk_loop ::
  "deriv_fn \<Rightarrow> real \<Rightarrow> real \<Rightarrow> real \<Rightarrow> real list \<Rightarrow> real list \<Rightarrow> real list
     \<Rightarrow> error + (real \<times> real list) list" where
  "rk_loop f t_bound direction t y f_cur [] = Inr []"
| "rk_loop f t_bound direction t y f_cur (h_abs # hs) =
     (if t = t_bound then Inr []
      else
        (let t_new = (if direction * (t + h_abs * direction - t_bound) > 0 then t_bound
                      else t + h_abs * direction);
             h = t_new - t
         in case rk_step f t y f_cur h of
              Inl e \<Rightarrow> Inl e
            | Inr (y_new, f_new) \<Rightarrow>
                (case rk_loop f t_bound direction t_new y_new f_new hs of
                   Inl e \<Rightarrow> Inl e
                 | Inr tr \<Rightarrow> Inr ((t_new, y_new) # tr))))"

text \<open>
  Modelled from the spec: \<open>integrate_trajectory(derivative_fn, t_span,
  initial_state, method)\<close>, the ordered samples from the initial one at \<open>t0\<close>
  on, one more for each accepted step.
\<close>

definition solve_ivp ::
  "deriv_fn \<Rightarrow> real \<times> real \<Rightarrow> real list \<Rightarrow> real list \<Rightarrow> error + (real \<times> real list) list" where
  "solve_ivp f t_span y0 hs =
     (let t0 = fst t_span; tf = snd t_span;
          direction = (if tf \<noteq> t0 then sgn (tf - t0) else 1)
      in case f t0 y0 of
           Inl e \<Rightarrow> Inl e
         | Inr f0 \<Rightarrow>
             (case rk_loop f tf direction t0 y0 f0 hs of
                Inl e \<Rightarrow> Inl e
              | Inr tr \<Rightarrow> Inr ((t0, y0) # tr)))"

section \<open>Matrices of the shapes in use\<close>

lemma shape_2_1: "is_shape 2 1 m \<longleftrightarrow> (\<exists>a b. m = [[a], [b]])"
  by (auto simp: is_shape_def length_Suc_conv numeral_2_eq_2)

lemma shape_3_3: "is_shape 3 3 m \<longleftrightarrow>
  (\<exists>a b c d e f g h i. m = [[a, b, c], [d, e, f], [g, h, i]])"
  by (auto simp: is_shape_def length_Suc_conv numeral_3_eq_3)

lemma rigid_matrix:
  "rigid_transformation2d theta [[a], [b]] =
   Inr [[cos theta, - sin theta, a], [sin theta, cos theta, b], [0, 0, 1]]"
  by (simp add: rigid_transformation2d_def rotation_2d_def block_def hstack_def vstack_def
      zeros_def nrows_def ncols_def numeral_2_eq_2)

section \<open>Properties of the frame transforms\<close>

text \<open>
  C1. For every angle \<open>theta\<close>, \<open>rotation_2d(theta)\<close> returns exactly the
  \<open>2 \<times> 2\<close> matrix with rows \<open>[cos theta, -sin theta]\<close> and \<open>[sin theta, cos theta]\<close>.
\<close>

theorem rotation_2d_matrix:
  "rotation_2d theta = [[cos theta, - sin theta], [sin theta, cos theta]]"
  by (simp add: rotation_2d_def)

text \<open>The quarter turn of the notebook: the columns are the images of the unit vectors.\<close>

theorem rotation_2d_matrix_witness:
  "rotation_2d (pi / 2) = [[0, - 1], [1, 0]]"
  using rotation_2d_matrix [of "pi / 2"] by simp

text \<open>
  C2. For every angle \<open>theta\<close> and every column vector \<open>xi\<close> of two components,
  \<open>rigid_transformation2d(theta, xi)\<close> returns a \<open>3 \<times> 3\<close> matrix whose upper left
  \<open>2 \<times> 2\<close> block is \<open>rotation_2d(theta)\<close>, whose upper right column is \<open>xi\<close> and
  whose last row is \<open>[0, 0, 1]\<close>.
\<close>

theorem rigid_transformation2d_blocks:
  assumes "is_shape 2 1 xi"
  shows "\<exists>T. rigid_transformation2d theta xi = Inr T
           \<and> is_shape 3 3 T
           \<and> map (take 2) (take 2 T) = rotation_2d theta
           \<and> map (drop 2) (take 2 T) = xi
           \<and> T ! 2 = [0, 0, 1]"
proof -
  from assms [unfolded shape_2_1] obtain a b where "xi = [[a], [b]]"
    by blast
  then show ?thesis
    by (simp add: rigid_matrix rotation_2d_def is_shape_def)
qed

text \<open>The transform \<open>T_OA\<close> of the notebook: a quarter turn and the offset \<open>(1, 1)\<close>.\<close>

theorem rigid_transformation2d_blocks_witness:
  "is_shape 2 1 [[1], [1]]
   \<and> rigid_transformation2d (pi / 2) [[1], [1]] = Inr [[0, - 1, 1], [1, 0, 1], [0, 0, 1]]"
proof -
  have h: "is_shape 2 1 [[1], [1]]"
    by (simp add: is_shape_def)
  from rigid_transformation2d_blocks [OF h, of "pi / 2"] obtain T where
    "rigid_transformation2d (pi / 2) [[1], [1]] = Inr T
       \<and> is_shape 3 3 T
       \<and> map (take 2) (take 2 T) = rotation_2d (pi / 2)
       \<and> map (drop 2) (take 2 T) = [[1], [1]]
       \<and> T ! 2 = [0, 0, 1]" ..
  then have T: "rigid_transformation2d (pi / 2) [[1], [1]] = Inr T"
    and shape: "is_shape 3 3 T"
    and rot: "map (take 2) (take 2 T) = rotation_2d (pi / 2)"
    and col: "map (drop 2) (take 2 T) = [[1], [1]]"
    and last: "T ! 2 = [0, 0, 1]"
    by blast+
  from shape [unfolded shape_3_3] obtain a b c d e f g k i
    where M: "T = [[a, b, c], [d, e, f], [g, k, i]]"
    by blast
  from rot col last have "T = [[0, - 1, 1], [1, 0, 1], [0, 0, 1]]"
    unfolding M by (simp add: rotation_2d_def)
  with T h show ?thesis
    by simp
qed

section \<open>Properties of the unicycle model\<close>

text \<open>Both controllers of the notebook read the time only.\<close>

lemma controllers_time_only:
  "u_const_fn t s = u_const_fn t s'"
  "open_loop t s t_f alpha = open_loop t s' t_f alpha"
  by (simp_all add: u_const_fn_def open_loop_def)

text \<open>
  With the default control the derivative vanishes, so a Runge-Kutta step of any
  size returns the state it started from, and so does every run of the loop.
\<close>

lemma zero_step:
  "rk_step (\<lambda>t x. unicycle_motion t x None) t [x, y, theta] [0, 0, 0] h =
   Inr ([x, y, theta], [0, 0, 0])"
  by (simp add: rk_step_def rk23_A_def rk23_B_def rk23_C_def lincomb_def vadd_def vscale_def
      unicycle_motion_def default_u_fn_def Let_def numeral_3_eq_3)

lemma zero_loop:
  "\<exists>tr. rk_loop (\<lambda>t x. unicycle_motion t x None) tf d t [x, y, theta] [0, 0, 0] hs = Inr tr
     \<and> (\<forall>sample \<in> set tr. snd sample = [x, y, theta])"
proof (induction hs arbitrary: t)
  case Nil
  show ?case by simp
next
  case (Cons h hs)
  show ?case
  proof (cases "t = tf")
    case True
    then show ?thesis by simp
  next
    case False
    define t_new where "t_new = (if d * (t + h * d - tf) > 0 then tf else t + h * d)"
    from Cons.IH [of t_new] obtain tr where
      "rk_loop (\<lambda>t x. unicycle_motion t x None) tf d t_new [x, y, theta] [0, 0, 0] hs = Inr tr"
      "\<forall>sample \<in> set tr. snd sample = [x, y, theta]"
      by blast
    with False show ?thesis
      by (simp add: zero_step Let_def t_new_def)
  qed
qed

text \<open>
  C3. For every time \<open>t\<close>, every state \<open>(x, y, theta)\<close> and every control function
  that returns \<open>(v, omega)\<close> there, \<open>unicycle_motion\<close> returns exactly
  \<open>(v cos theta, v sin theta, omega)\<close>; a call that omits the control function uses
  the default \<open>(0, 0)\<close> and returns \<open>(0, 0, 0)\<close>.
\<close>

theorem unicycle_motion_derivative:
  "(u_fn t [x, y, theta] = [v, omega] \<longrightarrow>
      unicycle_motion t [x, y, theta] (Some u_fn) = Inr [v * cos theta, v * sin theta, omega])
   \<and> unicycle_motion t [x, y, theta] None = Inr [0, 0, 0]"
  by (simp add: unicycle_motion_def default_u_fn_def)

text \<open>The constant controller of the notebook at heading 0: the derivative is \<open>(v, 0, omega)\<close>.\<close>

theorem unicycle_motion_derivative_witness:
  "u_const_fn 0 [0, 0, 0] = [0.5, pi / 6]
   \<and> unicycle_motion 0 [0, 0, 0] (Some u_const_fn) = Inr [0.5, 0, pi / 6]
   \<and> unicycle_motion 0 [0, 0, 0] None = Inr [0, 0, 0]"
proof -
  have h: "u_const_fn 0 [0, 0, 0] = [0.5, pi / 6]"
    by (simp add: u_const_fn_def)
  from unicycle_motion_derivative [of u_const_fn 0 0 0 0 "0.5" "pi / 6"] h show ?thesis
    by simp
qed

text \<open>
  C9. For every time and state, when the control function returns a list whose
  length is not 2, \<open>unicycle_motion\<close> raises an error (the \<open>ValueError\<close> of the
  failed unpacking) and returns no derivative.
\<close>

theorem unicycle_motion_wrong_shape:
  assumes "length (u_fn t x) \<noteq> 2"
  shows "unicycle_motion t x (Some u_fn) = Inl ValueError"
proof (cases "u_fn t x")
  case Nil
  then show ?thesis
    by (simp add: unicycle_motion_def)
next
  case (Cons v rest)
  note outer = this
  show ?thesis
  proof (cases rest)
    case Nil
    with outer show ?thesis
      by (simp add: unicycle_motion_def)
  next
    case (Cons omega more)
    with outer assms obtain z zs where "more = z # zs"
      by (cases more) auto
    with outer Cons show ?thesis
      by (simp add: unicycle_motion_def)
  qed
qed

theorem unicycle_motion_wrong_shape_witness:
  "length ((\<lambda>t x. [1, 2, 3]) (0::real) [0, 0, 0::real]) \<noteq> 2
   \<and> unicycle_motion 0 [0, 0, 0] (Some (\<lambda>t x. [1, 2, 3])) = Inl ValueError
   \<and> unicycle_motion 0 [0, 0, 0] (Some (\<lambda>t x. [1])) = Inl ValueError"
proof -
  have h3: "length ((\<lambda>t x. [1, 2, 3::real]) (0::real) [0, 0, 0::real]) \<noteq> 2"
    and h1: "length ((\<lambda>t x. [1::real]) (0::real) [0, 0, 0::real]) \<noteq> 2"
    by simp_all
  from unicycle_motion_wrong_shape [of "\<lambda>t x. [1, 2, 3]" 0 "[0, 0, 0]", OF h3]
    unicycle_motion_wrong_shape [of "\<lambda>t x. [1]" 0 "[0, 0, 0]", OF h1]
  show ?thesis
    by simp
qed

text \<open>
  C10. The derivative does not depend on the position. For every time \<open>t\<close> and any
  two states of three components with the same heading, a control function whose
  output at \<open>t\<close> is the same for every state gives the same result on both; so does
  any control function that agrees on the two states, and so does the default
  control.
\<close>

theorem unicycle_motion_position_independent:
  assumes "length s1 = 3" and "length s2 = 3" and "s1 ! 2 = s2 ! 2"
  shows "((\<forall>s s'. u_fn t s = u_fn t s') \<longrightarrow>
            unicycle_motion t s1 (Some u_fn) = unicycle_motion t s2 (Some u_fn))
         \<and> (u_fn t s1 = u_fn t s2 \<longrightarrow>
            unicycle_motion t s1 (Some u_fn) = unicycle_motion t s2 (Some u_fn))
         \<and> unicycle_motion t s1 None = unicycle_motion t s2 None"
proof -
  have agree: "unicycle_motion t s1 (Some u_fn) = unicycle_motion t s2 (Some u_fn)"
    if "u_fn t s1 = u_fn t s2"
    using that assms by (simp add: unicycle_motion_def split: list.split)
  have "unicycle_motion t s1 None = unicycle_motion t s2 None"
    using assms by (simp add: unicycle_motion_def default_u_fn_def)
  with agree show ?thesis
    by simp
qed

text \<open>The constant controller at two different positions with the heading \<open>pi / 2\<close>.\<close>

theorem unicycle_motion_position_independent_witness:
  "length [0, 0, pi / 2] = 3 \<and> length [5, 7, pi / 2] = 3
   \<and> [0, 0, pi / 2] ! 2 = [5, 7, pi / 2] ! 2
   \<and> (\<forall>s s'. u_const_fn 1 s = u_const_fn 1 s')
   \<and> unicycle_motion 1 [0, 0, pi / 2] (Some u_const_fn) = Inr [0, 0.5, pi / 6]
   \<and> unicycle_motion 1 [5, 7, pi / 2] (Some u_const_fn) = Inr [0, 0.5, pi / 6]"
proof -
  have h1: "length [0, 0, pi / 2] = 3" and h2: "length [5, 7, pi / 2] = 3"
    and h3: "[0, 0, pi / 2] ! 2 = [5, 7, pi / 2] ! 2"
    by simp_all
  have h4: "\<forall>s s'. u_const_fn 1 s = u_const_fn 1 s'"
    by (simp add: u_const_fn_def)
  have v: "unicycle_motion 1 [0, 0, pi / 2] (Some u_const_fn) = Inr [0, 0.5, pi / 6]"
    by (simp add: unicycle_motion_def u_const_fn_def)
  from unicycle_motion_position_independent [OF h1 h2 h3, of u_const_fn 1] h4 v
  have "unicycle_motion 1 [5, 7, pi / 2] (Some u_const_fn) = Inr [0, 0.5, pi / 6]"
    by simp
  with h1 h2 h3 h4 v show ?thesis
    by blast
qed

text \<open>
  C7. For every time span and every initial state \<open>(x, y, theta)\<close>, and whatever
  steps the solver takes, integrating \<open>unicycle_motion\<close> with the default (zero)
  control succeeds and every sample of the trajectory, the first one at the start
  of the span, carries the initial state: each step adds a combination of zero
  derivatives.
\<close>

theorem zero_control_trajectory_constant:
  "\<exists>tr. solve_ivp (\<lambda>t x. unicycle_motion t x None) (t0, tf) [x, y, theta] hs = Inr tr
     \<and> tr \<noteq> []
     \<and> hd tr = (t0, [x, y, theta])
     \<and> (\<forall>sample \<in> set tr. snd sample = [x, y, theta])"
proof -
  define d where "d = (if tf \<noteq> t0 then sgn (tf - t0) else 1)"
  from zero_loop [of tf d t0 x y theta hs] obtain tr where
    "rk_loop (\<lambda>t x. unicycle_motion t x None) tf d t0 [x, y, theta] [0, 0, 0] hs = Inr tr"
    "\<forall>sample \<in> set tr. snd sample = [x, y, theta]"
    by blast
  then show ?thesis
    by (simp add: solve_ivp_def Let_def d_def unicycle_motion_def default_u_fn_def)
qed

text \<open>The time span and the initial state of the notebook, with two accepted steps.\<close>

theorem zero_control_trajectory_constant_witness:
  "solve_ivp (\<lambda>t x. unicycle_motion t x None) (0, 10) [0, 0, 0] [1, 10]
     = Inr [(0, [0, 0, 0]), (1, [0, 0, 0]), (10, [0, 0, 0])]
   \<and> map snd [(0::real, [0, 0, 0::real]), (1, [0, 0, 0]), (10, [0, 0, 0])]
     = replicate 3 [0, 0, 0]"
proof -
  have start: "unicycle_motion 0 [0, 0, 0] None = Inr [0, 0, 0]"
    by (simp add: unicycle_motion_def default_u_fn_def)
  have run: "solve_ivp (\<lambda>t x. unicycle_motion t x None) (0, 10) [0, 0, 0] [1, 10]
     = Inr [(0, [0, 0, 0]), (1, [0, 0, 0]), (10, [0, 0, 0])]"
    by (simp add: solve_ivp_def Let_def zero_step start)
  from zero_control_trajectory_constant [of 0 10 0 0 0 "[1, 10]"] show ?thesis
    unfolding run by (simp add: numeral_3_eq_3)
qed

end
